theory Spec2Isabelle
  imports Complex_Main "HOL-Library.AList"
begin

section \<open>Data model\<close>

text \<open>
  The controller \<^verbatim>\<open>BrokerApplicationsListController\<close> serves two requests of a broker:
  \<^verbatim>\<open>find\<close> lists the broker's applications under optional filters, \<^verbatim>\<open>post\<close> stores a new
  application and classifies its loan amount against the average. Both work on a repository
  that is injected through the constructor.
\<close>

text \<open>
  Modelled from the spec: the enumerations \<^verbatim>\<open>TaskStatus\<close> and \<^verbatim>\<open>ApplicationStatus\<close>
  (\<^verbatim>\<open>src/enums\<close>) are not part of the sources at hand. The members are the ones the controller
  and the specification name; one further constructor stands for the members the
  specification leaves open.
\<close>

datatype TaskStatus = Pending | Completed | OtherTaskStatus string

datatype ApplicationStatus = Submitted | Approved | Rejected | OtherApplicationStatus string

text \<open>
  Identifiers are natural numbers, dates are points on the time line (an integer count of
  milliseconds). A loan amount of an application or of a request body is a number read from
  JSON or from the store, where there is no \<^verbatim>\<open>NaN\<close>; the controller only compares it, and
  on such numbers the comparisons are the ones of the reals.
\<close>

record BrokerDto =
  id' :: nat

record Application =
  id' :: nat
  brokerId :: nat
  status :: ApplicationStatus
  loanAmount :: real
  createdAt :: int

record Task =
  id' :: nat
  applicationId :: nat
  assignedToBrokerId :: nat
  status :: TaskStatus

text \<open>An application as a query returns it: with its related task, if the join found one.\<close>

record ApplicationWithTask =
  application :: Application
  task :: "Task option"

text \<open>
  The query string of \<^verbatim>\<open>find\<close>. Every parameter is optional; \<open>None\<close> is JavaScript's
  \<^verbatim>\<open>undefined\<close>.
\<close>

record BrokerApplicationsListRequestDto =
  minimumDate :: "int option"
  maximumDate :: "int option"
  completed :: "bool option"
  status :: "ApplicationStatus list option"

record BrokerApplicationsListResponseDto =
  success :: bool
  applications :: "ApplicationWithTask list"

text \<open>
  The body of \<^verbatim>\<open>post\<close>, and its response; \<open>None\<close> is JavaScript's \<^verbatim>\<open>null\<close>. The
  controller reads only the loan amount of the body and passes the body on as a whole.
\<close>

record ApplicationDto =
  loanAmount :: real

record BrokerApplicationPostResponseDto =
  success :: bool
  loanAmount :: "real option"
  message :: string

subsection \<open>Errors\<close>

text \<open>
  The error taxonomy of the specification, and what a handler throws: either the rejection
  of a repository call, which no handler catches, or the \<^verbatim>\<open>HttpException\<close> that \<^verbatim>\<open>find\<close>
  builds from a caught error. The first argument of \<open>HttpException\<close> stands for the message
  of the caught error.
\<close>

datatype Error = InvalidRange | InternalFailure

datatype HttpStatus = OK | BAD_REQUEST | INTERNAL_SERVER_ERROR

datatype Exception = Rejection Error | HttpException Error HttpStatus

subsection \<open>JavaScript values\<close>

text \<open>
  What \<^verbatim>\<open>getAverageLoanAmount\<close> may hand to \<^verbatim>\<open>post\<close>: a number, \<^verbatim>\<open>NaN\<close> (which is a number
  in JavaScript), \<^verbatim>\<open>null\<close> or \<^verbatim>\<open>undefined\<close>. The comparisons of \<^verbatim>\<open>post\<close> are the ones of the
  language: \<^verbatim>\<open>===\<close> never converts and is false on \<^verbatim>\<open>NaN\<close>; \<^verbatim>\<open><\<close> and \<^verbatim>\<open>>\<close> convert both
  sides to numbers, \<^verbatim>\<open>null\<close> to 0 and \<^verbatim>\<open>undefined\<close> to \<^verbatim>\<open>NaN\<close>, and are false when a side
  is \<^verbatim>\<open>NaN\<close>. In \<open>toNumber\<close> the result \<open>None\<close> is \<^verbatim>\<open>NaN\<close>.
\<close>

datatype JsValue = Num real | NaN | Null | Undefined

fun strictEquals :: "JsValue \<Rightarrow> JsValue \<Rightarrow> bool" where
  "strictEquals (Num x) (Num y) = (x = y)"
| "strictEquals Null Null = True"
| "strictEquals Undefined Undefined = True"
| "strictEquals _ _ = False"

fun toNumber :: "JsValue \<Rightarrow> real option" where
  "toNumber (Num x) = Some x"
| "toNumber NaN = None"
| "toNumber Null = Some 0"
| "toNumber Undefined = None"

definition jsLess :: "JsValue \<Rightarrow> JsValue \<Rightarrow> bool" where
  "jsLess a b =
     (case (toNumber a, toNumber b) of
        (Some x, Some y) \<Rightarrow> x < y
      | _ \<Rightarrow> False)"

definition jsGreater :: "JsValue \<Rightarrow> JsValue \<Rightarrow> bool" where
  "jsGreater a b = jsLess b a"

section \<open>Query objects\<close>

text \<open>
  The controller hands plain objects to the query engine: a \<^verbatim>\<open>where\<close> object maps attribute
  names to conditions, an \<^verbatim>\<open>include\<close> entry joins a related model under a \<^verbatim>\<open>where\<close> object
  of its own. An object is an association list; the spread \<^verbatim>\<open>{...target, ...source}\<close> and
  the assignment of a property both overwrite an existing key.
\<close>

datatype Value =
    IdValue nat
  | DateValue int
  | NumberValue real
  | ApplicationStatusValue ApplicationStatus
  | TaskStatusValue TaskStatus

datatype Condition =
    Equals Value
  | OpIn "Value list"
  | OpGte int
  | OpLte int
  | OpBetween int int

type_synonym WhereOptions = "(string \<times> Condition) list"

datatype Model = ApplicationModel | TaskModel

record IncludeOptions =
  model :: Model
  where' :: WhereOptions
  required :: "bool option"

record FindOptions =
  where' :: WhereOptions
  include' :: "IncludeOptions list"

definition spread :: "('k \<times> 'v) list \<Rightarrow> ('k \<times> 'v) list \<Rightarrow> ('k \<times> 'v) list" where
  "spread target source = fold (\<lambda>(k, v). AList.update k v) source target"

subsection \<open>What a query object means\<close>

text \<open>
  Modelled from the spec: the query engine (\<^verbatim>\<open>sequelize\<close>) is not part of the sources at
  hand. A \<^verbatim>\<open>where\<close> object is the conjunction of its entries; an entry holds of a record when
  the record has the attribute and the attribute's value meets the condition. An \<^verbatim>\<open>include\<close>
  entry with a \<^verbatim>\<open>where\<close> object is a mandatory join unless \<^verbatim>\<open>required\<close> says otherwise.
\<close>

fun holds :: "Condition \<Rightarrow> Value \<Rightarrow> bool" where
  "holds (Equals v) x = (x = v)"
| "holds (OpIn vs) x = (x \<in> set vs)"
| "holds (OpGte lo) x = (case x of DateValue d \<Rightarrow> lo \<le> d | _ \<Rightarrow> False)"
| "holds (OpLte hi) x = (case x of DateValue d \<Rightarrow> d \<le> hi | _ \<Rightarrow> False)"
| "holds (OpBetween lo hi) x = (case x of DateValue d \<Rightarrow> lo \<le> d \<and> d \<le> hi | _ \<Rightarrow> False)"

definition satisfies :: "(string \<times> Value) list \<Rightarrow> WhereOptions \<Rightarrow> bool" where
  "satisfies attributes w =
     list_all (\<lambda>(field, c). case map_of attributes field of
                              Some v \<Rightarrow> holds c v
                            | None \<Rightarrow> False) w"

definition applicationAttributes :: "Application \<Rightarrow> (string \<times> Value) list" where
  "applicationAttributes a =
     [(''id'', IdValue (Application.id' a)),
      (''brokerId'', IdValue (Application.brokerId a)),
      (''status'', ApplicationStatusValue (Application.status a)),
      (''loanAmount'', NumberValue (Application.loanAmount a)),
      (''createdAt'', DateValue (createdAt a))]"

definition taskAttributes :: "Task \<Rightarrow> (string \<times> Value) list" where
  "taskAttributes t =
     [(''id'', IdValue (Task.id' t)),
      (''applicationId'', IdValue (applicationId t)),
      (''assignedToBrokerId'', IdValue (assignedToBrokerId t)),
      (''status'', TaskStatusValue (Task.status t))]"

definition matchesApplication :: "FindOptions \<Rightarrow> Application \<Rightarrow> bool" where
  "matchesApplication options a = satisfies (applicationAttributes a) (FindOptions.where' options)"

definition matchesTask :: "IncludeOptions \<Rightarrow> Task \<Rightarrow> bool" where
  "matchesTask inc t = satisfies (taskAttributes t) (IncludeOptions.where' inc)"

definition mandatory :: "IncludeOptions \<Rightarrow> bool" where
  "mandatory inc = (case required inc of Some b \<Rightarrow> b | None \<Rightarrow> True)"

section \<open>Collaborators\<close>

text \<open>
  Modelled from the spec: \<^verbatim>\<open>createDateFilter\<close> (\<^verbatim>\<open>src/common/query-filters\<close>) is not part of
  the sources at hand. With both bounds it constrains the attribute to the closed interval,
  with one bound to the half line, with none it constrains nothing; a minimum after the
  maximum is the error \<open>InvalidRange\<close>.
\<close>

definition createDateFilter :: "string \<Rightarrow> int option \<Rightarrow> int option \<Rightarrow> Error + WhereOptions" where
  "createDateFilter field minimum maximum =
     (case (minimum, maximum) of
        (Some lo, Some hi) \<Rightarrow>
          if lo > hi then Inl InvalidRange else Inr [(field, OpBetween lo hi)]
      | (Some lo, None) \<Rightarrow> Inr [(field, OpGte lo)]
      | (None, Some hi) \<Rightarrow> Inr [(field, OpLte hi)]
      | (None, None) \<Rightarrow> Inr [])"

text \<open>
  The repository the constructor injects (\<^verbatim>\<open>applicationEntity\<close>), over a state \<open>'s\<close> of the
  data store. Each call may be rejected.
\<close>

record ApplicationCreationAttributes =
  payload :: ApplicationDto
  status :: ApplicationStatus
  brokerId :: nat

record 's ApplicationRepository =
  findAll :: "FindOptions \<Rightarrow> 's \<Rightarrow> Error + ApplicationWithTask list"
  getAverageLoanAmount :: "'s \<Rightarrow> Error + JsValue"
  create :: "ApplicationCreationAttributes \<Rightarrow> 's \<Rightarrow> Error + 's"

subsection \<open>A repository in memory\<close>

text \<open>
  Modelled from the spec: the entity \<^verbatim>\<open>Application\<close> with \<^verbatim>\<open>findAll\<close>, \<^verbatim>\<open>create\<close> and
  \<^verbatim>\<open>getAverageLoanAmount\<close> (\<^verbatim>\<open>src/models/applications\<close>) is not part of the sources at hand.
  The store is the two tables. A query returns the applications that satisfy the \<^verbatim>\<open>where\<close>
  object, each with the related task that the first \<^verbatim>\<open>include\<close> entry admits; an application
  without such a task is dropped when the join is mandatory and returned without a task when
  it is optional. The average is the arithmetic mean of the loan amounts, and 0 when there is
  no application.
\<close>

record Store =
  applicationTable :: "Application list"
  taskTable :: "Task list"
  now :: int

definition relatedTask :: "Task list \<Rightarrow> IncludeOptions \<Rightarrow> Application \<Rightarrow> Task option" where
  "relatedTask ts inc a =
     List.find (\<lambda>t. applicationId t = Application.id' a \<and> matchesTask inc t) ts"

fun joinRow :: "Task list \<Rightarrow> IncludeOptions list \<Rightarrow> Application \<Rightarrow> ApplicationWithTask option" where
  "joinRow ts [] a = Some \<lparr>application = a, task = None\<rparr>"
| "joinRow ts (inc # _) a =
     (case relatedTask ts inc a of
        Some t \<Rightarrow> Some \<lparr>application = a, task = Some t\<rparr>
      | None \<Rightarrow> if mandatory inc then None else Some \<lparr>application = a, task = None\<rparr>)"

definition queryApplications :: "Store \<Rightarrow> FindOptions \<Rightarrow> ApplicationWithTask list" where
  "queryApplications s options =
     List.map_filter
       (\<lambda>a. if matchesApplication options a then joinRow (taskTable s) (include' options) a
            else None)
       (applicationTable s)"

definition averageLoanAmount :: "Store \<Rightarrow> real" where
  "averageLoanAmount s =
     (let amounts = map Application.loanAmount (applicationTable s)
      in if amounts = [] then 0 else sum_list amounts / real (length amounts))"

definition insertApplication :: "ApplicationCreationAttributes \<Rightarrow> Store \<Rightarrow> Store" where
  "insertApplication attrs s =
     s\<lparr>applicationTable := applicationTable s @
         [\<lparr>Application.id' = Suc (length (applicationTable s)),
           Application.brokerId = ApplicationCreationAttributes.brokerId attrs,
           Application.status = ApplicationCreationAttributes.status attrs,
           Application.loanAmount = ApplicationDto.loanAmount (payload attrs),
           createdAt = now s\<rparr>]\<rparr>"

definition memoryRepository :: "Store ApplicationRepository" where
  "memoryRepository =
     \<lparr>findAll = (\<lambda>options s. Inr (queryApplications s options)),
      getAverageLoanAmount = (\<lambda>s. Inr (Num (averageLoanAmount s))),
      create = (\<lambda>attrs s. Inr (insertApplication attrs s))\<rparr>"


section \<open>The controller\<close>

subsection \<open>Listing: \<^verbatim>\<open>find\<close>\<close>

text \<open>
  \<open>relatedData\<close>, \<open>whereOptions\<close> and \<open>findOptions\<close> are the local values of \<^verbatim>\<open>find\<close> with
  these names and the argument of its call of \<^verbatim>\<open>findAll\<close>. A condition of the source is
  JavaScript truthiness: \<^verbatim>\<open>query.completed\<close> is truthy when it is \<^verbatim>\<open>true\<close>, and
  \<^verbatim>\<open>query.status\<close>, an array, is truthy whenever it is present, also when it is empty.
  \<^verbatim>\<open>console.log\<close> appends to the console, which is threaded through as state.
\<close>

type_synonym Console = "WhereOptions list"

definition relatedData :: "BrokerDto \<Rightarrow> BrokerApplicationsListRequestDto \<Rightarrow> IncludeOptions list" where
  "relatedData user query =
     (if completed query = Some True
      then [\<lparr>model = TaskModel,
             IncludeOptions.where' =
               [(''status'', Equals (TaskStatusValue Completed)),
                (''assignedToBrokerId'', Equals (IdValue (BrokerDto.id' user)))],
             required = None\<rparr>]
      else [\<lparr>model = TaskModel,
             IncludeOptions.where' =
               [(''status'', Equals (TaskStatusValue Pending)),
                (''assignedToBrokerId'', Equals (IdValue (BrokerDto.id' user)))],
             required = Some False\<rparr>])"

definition whereOptions ::
  "BrokerDto \<Rightarrow> BrokerApplicationsListRequestDto \<Rightarrow> WhereOptions \<Rightarrow> Console
     \<Rightarrow> WhereOptions \<times> Console" where
  "whereOptions user query dateFilter console =
     (let w = spread [(''brokerId'', Equals (IdValue (BrokerDto.id' user)))] dateFilter
      in case BrokerApplicationsListRequestDto.status query of
           Some statuses \<Rightarrow>
             (let w' = AList.update ''status'' (OpIn (map ApplicationStatusValue statuses)) w
              in (w', console @ [w']))
         | None \<Rightarrow> (w, console))"

definition findOptions ::
  "BrokerDto \<Rightarrow> BrokerApplicationsListRequestDto \<Rightarrow> Console
     \<Rightarrow> Exception + (FindOptions \<times> Console)" where
  "findOptions user query console =
     (case createDateFilter ''createdAt'' (minimumDate query) (maximumDate query) of
        Inl error \<Rightarrow> Inl (HttpException error BAD_REQUEST)
      | Inr dateFilter \<Rightarrow>
          (case whereOptions user query dateFilter console of
             (w, console') \<Rightarrow>
               Inr (\<lparr>FindOptions.where' = w, include' = relatedData user query\<rparr>, console')))"

definition find ::
  "'s ApplicationRepository \<Rightarrow> BrokerDto \<Rightarrow> BrokerApplicationsListRequestDto \<Rightarrow> 's \<times> Console
     \<Rightarrow> Exception + (BrokerApplicationsListResponseDto \<times> Console)" where
  "find applicationEntity user query st =
     (case findOptions user query (snd st) of
        Inl e \<Rightarrow> Inl e
      | Inr (options, console') \<Rightarrow>
          (case findAll applicationEntity options (fst st) of
             Inl e \<Rightarrow> Inl (Rejection e)
           | Inr found \<Rightarrow>
               Inr (\<lparr>BrokerApplicationsListResponseDto.success = True, applications = found\<rparr>,
                    console')))"

subsection \<open>Submitting: \<^verbatim>\<open>post\<close>\<close>

text \<open>
  The average is read first, then the echo of the amount is fixed by \<^verbatim>\<open>!==\<close>, then the
  application is stored, then the amount is classified by \<^verbatim>\<open>>\<close> and \<^verbatim>\<open><\<close>. A rejected
  repository call ends the request.
\<close>

definition post ::
  "'s ApplicationRepository \<Rightarrow> BrokerDto \<Rightarrow> ApplicationDto \<Rightarrow> 's
     \<Rightarrow> Exception + (BrokerApplicationPostResponseDto \<times> 's)" where
  "post applicationEntity user body s =
     (case getAverageLoanAmount applicationEntity s of
        Inl e \<Rightarrow> Inl (Rejection e)
      | Inr avgLoanAmount \<Rightarrow>
          (let loanAmount =
                 (if \<not> strictEquals (Num (ApplicationDto.loanAmount body)) avgLoanAmount
                  then Some (ApplicationDto.loanAmount body) else None)
           in case create applicationEntity
                     \<lparr>payload = body, status = Submitted,
                      brokerId = BrokerDto.id' user\<rparr> s of
                Inl e \<Rightarrow> Inl (Rejection e)
              | Inr s' \<Rightarrow>
                  (let loanAmountStatus =
                         (if jsGreater (Num (ApplicationDto.loanAmount body)) avgLoanAmount
                          then ''above''
                          else if jsLess (Num (ApplicationDto.loanAmount body)) avgLoanAmount
                          then ''below''
                          else ''at'')
                   in Inr (\<lparr>BrokerApplicationPostResponseDto.success = True,
                             loanAmount = loanAmount,
                             message = ''Loan amount is '' @ loanAmountStatus @ '' average''\<rparr>,
                           s'))))"

section \<open>Example data\<close>

text \<open>
  A store with three applications of equal loan amount, two of broker 7 and one of broker 8,
  and one task for each of them; the empty store; and a repository whose store cannot be
  written.
\<close>

definition broker7 :: BrokerDto where
  "broker7 = \<lparr>BrokerDto.id' = 7\<rparr>"

definition store1 :: Store where
  "store1 =
     \<lparr>applicationTable =
        [\<lparr>Application.id' = 1, Application.brokerId = 7, Application.status = Submitted,
          Application.loanAmount = 100000, createdAt = 10\<rparr>,
         \<lparr>Application.id' = 2, Application.brokerId = 8, Application.status = Approved,
          Application.loanAmount = 100000, createdAt = 12\<rparr>,
         \<lparr>Application.id' = 3, Application.brokerId = 7, Application.status = Approved,
          Application.loanAmount = 100000, createdAt = 15\<rparr>],
      taskTable =
        [\<lparr>Task.id' = 1, applicationId = 1, assignedToBrokerId = 7, Task.status = Completed\<rparr>,
         \<lparr>Task.id' = 2, applicationId = 2, assignedToBrokerId = 8, Task.status = Pending\<rparr>,
         \<lparr>Task.id' = 3, applicationId = 3, assignedToBrokerId = 7, Task.status = Pending\<rparr>],
      now = 20\<rparr>"

definition emptyStore :: Store where
  "emptyStore = \<lparr>applicationTable = [], taskTable = [], now = 0\<rparr>"

definition readOnlyRepository :: "Store ApplicationRepository" where
  "readOnlyRepository = memoryRepository\<lparr>create := (\<lambda>attrs s. Inl InternalFailure)\<rparr>"

definition listQuery ::
  "int option \<Rightarrow> int option \<Rightarrow> bool option \<Rightarrow> ApplicationStatus list option
     \<Rightarrow> BrokerApplicationsListRequestDto" where
  "listQuery lo hi c sts =
     \<lparr>minimumDate = lo, maximumDate = hi, completed = c,
      BrokerApplicationsListRequestDto.status = sts\<rparr>"

section \<open>Auxiliary facts\<close>

lemma createDateFilter_cases:
  assumes "createDateFilter field lo hi = Inr df"
  shows "df = [] \<or> (\<exists>c. df = [(field, c)])"
  using assms by (auto simp: createDateFilter_def split: option.splits if_splits)

lemma satisfies_Cons:
  "satisfies attrs ((field, c) # w) =
     ((case map_of attrs field of Some v \<Rightarrow> holds c v | None \<Rightarrow> False) \<and> satisfies attrs w)"
  by (simp add: satisfies_def)

lemma satisfies_append:
  "satisfies attrs (w @ w') = (satisfies attrs w \<and> satisfies attrs w')"
  by (simp add: satisfies_def)

lemma findOptions_Inr:
  assumes "findOptions user query console = Inr (options, console')"
  shows "\<exists>df. createDateFilter ''createdAt'' (minimumDate query) (maximumDate query) = Inr df
     \<and> FindOptions.where' options =
         (''brokerId'', Equals (IdValue (BrokerDto.id' user))) # df @
         (case BrokerApplicationsListRequestDto.status query of
            None \<Rightarrow> []
          | Some statuses \<Rightarrow> [(''status'', OpIn (map ApplicationStatusValue statuses))])
     \<and> include' options = relatedData user query
     \<and> console' =
         (case BrokerApplicationsListRequestDto.status query of
            None \<Rightarrow> console
          | Some statuses \<Rightarrow> console @ [FindOptions.where' options])"
proof -
  from assms obtain df where
    df: "createDateFilter ''createdAt'' (minimumDate query) (maximumDate query) = Inr df"
    by (auto simp: findOptions_def split: sum.splits)
  from createDateFilter_cases[OF df]
  have sp: "spread [(''brokerId'', Equals (IdValue (BrokerDto.id' user)))] df =
              (''brokerId'', Equals (IdValue (BrokerDto.id' user))) # df"
    by (auto simp: spread_def)
  from createDateFilter_cases[OF df]
  have up: "\<And>v. AList.update ''status'' v df = df @ [(''status'', v)]"
    by auto
  show ?thesis using assms df
    by (auto simp: findOptions_def whereOptions_def sp up Let_def split: option.splits)
qed

lemma findOptions_Inl:
  assumes "minimumDate query = Some lo" "maximumDate query = Some hi" "hi < lo"
  shows "findOptions user query console = Inl (HttpException InvalidRange BAD_REQUEST)"
  using assms by (simp add: findOptions_def createDateFilter_def)

lemma findOptions_no_status:
  assumes "createDateFilter ''createdAt'' (minimumDate query) (maximumDate query) = Inr df"
    and "BrokerApplicationsListRequestDto.status query = None"
  shows "findOptions user query console =
     Inr (\<lparr>FindOptions.where' = (''brokerId'', Equals (IdValue (BrokerDto.id' user))) # df,
           include' = relatedData user query\<rparr>, console)"
proof -
  from createDateFilter_cases[OF assms(1)]
  have "spread [(''brokerId'', Equals (IdValue (BrokerDto.id' user)))] df =
          (''brokerId'', Equals (IdValue (BrokerDto.id' user))) # df"
    by (auto simp: spread_def)
  with assms show ?thesis
    by (simp add: findOptions_def whereOptions_def)
qed

lemma satisfies_dateFilter_status:
  assumes "createDateFilter ''createdAt'' lo hi = Inr df"
  shows "satisfies (applicationAttributes (a\<lparr>Application.status := st\<rparr>)) df
           = satisfies (applicationAttributes a) df"
  using createDateFilter_cases[OF assms]
  by (auto simp: satisfies_def applicationAttributes_def)

lemma satisfies_brokerId:
  "satisfies (applicationAttributes a) [(''brokerId'', Equals (IdValue b))]
     \<longleftrightarrow> Application.brokerId a = b"
  by (simp add: satisfies_def applicationAttributes_def)

lemma satisfies_status:
  "satisfies (applicationAttributes a) [(''status'', OpIn (map ApplicationStatusValue statuses))]
     \<longleftrightarrow> Application.status a \<in> set statuses"
  by (auto simp: satisfies_def applicationAttributes_def)

lemma satisfies_dateFilter_ex:
  assumes "createDateFilter ''createdAt'' lo hi = Inr df"
  shows "\<exists>d. \<forall>i b st n. satisfies (applicationAttributes
           \<lparr>Application.id' = i, Application.brokerId = b, Application.status = st,
            Application.loanAmount = n, createdAt = d\<rparr>) df"
proof (cases lo)
  case None
  show ?thesis
  proof (cases hi)
    case None
    with \<open>lo = None\<close> assms show ?thesis
      by (auto simp: createDateFilter_def satisfies_def)
  next
    case (Some h)
    with \<open>lo = None\<close> assms have "df = [(''createdAt'', OpLte h)]"
      by (auto simp: createDateFilter_def)
    then have "\<forall>i b st n. satisfies (applicationAttributes
           \<lparr>Application.id' = i, Application.brokerId = b, Application.status = st,
            Application.loanAmount = n, createdAt = h\<rparr>) df"
      by (simp add: satisfies_def applicationAttributes_def)
    then show ?thesis ..
  qed
next
  case (Some l)
  with assms have "df = [(''createdAt'', OpGte l)] \<or> (\<exists>h. l \<le> h \<and> df = [(''createdAt'', OpBetween l h)])"
    by (auto simp: createDateFilter_def split: option.splits if_splits)
  then have "\<forall>i b st n. satisfies (applicationAttributes
           \<lparr>Application.id' = i, Application.brokerId = b, Application.status = st,
            Application.loanAmount = n, createdAt = l\<rparr>) df"
    by (auto simp: satisfies_def applicationAttributes_def)
  then show ?thesis ..
qed

lemma find_memory:
  "find memoryRepository user query (s, console) =
     (case findOptions user query console of
        Inl e \<Rightarrow> Inl e
      | Inr (options, console') \<Rightarrow>
          Inr (\<lparr>BrokerApplicationsListResponseDto.success = True,
                applications = queryApplications s options\<rparr>, console'))"
  by (simp add: find_def memoryRepository_def split: sum.splits)

lemma matchesApplication_brokerId:
  assumes "FindOptions.where' options = (''brokerId'', Equals (IdValue b)) # w"
    and "matchesApplication options a"
  shows "Application.brokerId a = b"
  using assms by (simp add: matchesApplication_def satisfies_Cons applicationAttributes_def)

lemma matchesTask_relatedData:
  assumes "inc \<in> set (relatedData user query)"
  shows "matchesTask inc t \<longleftrightarrow>
     Task.status t = (if completed query = Some True then Completed else Pending)
     \<and> assignedToBrokerId t = BrokerDto.id' user"
  using assms by (auto simp: relatedData_def matchesTask_def satisfies_def taskAttributes_def)

lemma relatedData_single: "\<exists>inc. relatedData user query = [inc]"
  by (simp add: relatedData_def)

lemma mandatory_relatedData:
  assumes "inc \<in> set (relatedData user query)"
  shows "mandatory inc \<longleftrightarrow> completed query = Some True"
  using assms by (auto simp: relatedData_def mandatory_def split: if_splits)

lemma relatedTask_Some:
  assumes "relatedTask ts inc a = Some t"
  shows "t \<in> set ts \<and> applicationId t = Application.id' a \<and> matchesTask inc t"
proof -
  from assms obtain i where "i < length ts" "t = ts ! i"
    "applicationId (ts ! i) = Application.id' a \<and> matchesTask inc (ts ! i)"
    unfolding relatedTask_def find_Some_iff by blast
  then show ?thesis by simp
qed

lemma relatedTask_None:
  "relatedTask ts inc a = None \<longleftrightarrow>
     \<not> (\<exists>t \<in> set ts. applicationId t = Application.id' a \<and> matchesTask inc t)"
  unfolding relatedTask_def find_None_iff by blast

lemma joinRow_Some:
  assumes "joinRow ts [inc] a = Some row"
  shows "application row = a \<and> task row = relatedTask ts inc a
     \<and> (mandatory inc \<longrightarrow> relatedTask ts inc a \<noteq> None)"
  using assms by (auto split: option.splits if_splits)

lemma in_map_filterD:
  "y \<in> set (List.map_filter f xs) \<Longrightarrow> \<exists>x \<in> set xs. f x = Some y"
  by (induction xs) (auto split: option.splits)

lemma queryApplications_row:
  assumes "row \<in> set (queryApplications s options)" and "include' options = [inc]"
  shows "application row \<in> set (applicationTable s)
     \<and> matchesApplication options (application row)
     \<and> task row = relatedTask (taskTable s) inc (application row)
     \<and> (mandatory inc \<longrightarrow> relatedTask (taskTable s) inc (application row) \<noteq> None)"
proof -
  from assms obtain a where a: "a \<in> set (applicationTable s)" "matchesApplication options a"
    "joinRow (taskTable s) [inc] a = Some row"
    by (auto simp: queryApplications_def dest!: in_map_filterD split: if_splits)
  from joinRow_Some[OF a(3)] a(1,2) show ?thesis by simp
qed

lemma map_application_map_filter:
  "map application
     (List.map_filter (\<lambda>a. if P a then joinRow ts [inc] a else None) xs) =
   filter (\<lambda>a. P a \<and> (mandatory inc \<longrightarrow> relatedTask ts inc a \<noteq> None)) xs"
  by (induction xs) (auto split: option.splits)

lemma map_application_queryApplications:
  assumes "include' options = [inc]"
  shows "map application (queryApplications s options) =
     filter (\<lambda>a. matchesApplication options a
                 \<and> (mandatory inc \<longrightarrow> relatedTask (taskTable s) inc a \<noteq> None))
       (applicationTable s)"
  by (simp only: queryApplications_def assms map_application_map_filter)

lemma queryApplications_unsatisfiable:
  assumes "\<forall>a. \<not> matchesApplication options a"
  shows "queryApplications s options = []"
proof -
  have "List.map_filter (\<lambda>a. if matchesApplication options a
           then joinRow (taskTable s) (include' options) a else None) xs = []" for xs
    using assms by (induction xs) simp_all
  then show ?thesis by (simp add: queryApplications_def)
qed

lemma strictEquals_Num: "strictEquals (Num x) v \<longleftrightarrow> v = Num x"
  by (cases v) auto

lemma jsGreater_Num: "jsGreater (Num x) (Num a) \<longleftrightarrow> a < x"
  by (simp add: jsGreater_def jsLess_def)

lemma jsLess_Num: "jsLess (Num x) (Num a) \<longleftrightarrow> x < a"
  by (simp add: jsLess_def)

lemma post_Inr:
  assumes "post applicationEntity user body s = Inr (response, s')"
  shows "\<exists>avg. getAverageLoanAmount applicationEntity s = Inr avg
    \<and> create applicationEntity
         \<lparr>payload = body, status = Submitted, brokerId = BrokerDto.id' user\<rparr> s = Inr s'
    \<and> BrokerApplicationPostResponseDto.success response = True
    \<and> BrokerApplicationPostResponseDto.loanAmount response =
         (if avg \<noteq> Num (ApplicationDto.loanAmount body)
          then Some (ApplicationDto.loanAmount body) else None)
    \<and> message response = ''Loan amount is '' @
         (if jsGreater (Num (ApplicationDto.loanAmount body)) avg then ''above''
          else if jsLess (Num (ApplicationDto.loanAmount body)) avg then ''below''
          else ''at'')
         @ '' average''"
proof (cases "getAverageLoanAmount applicationEntity s")
  case (Inl e)
  with assms show ?thesis by (simp add: post_def)
next
  case avg: (Inr avg)
  show ?thesis
  proof (cases "create applicationEntity
         \<lparr>payload = body, status = Submitted, brokerId = BrokerDto.id' user\<rparr> s")
    case (Inl e)
    with assms avg show ?thesis by (simp add: post_def Let_def)
  next
    case (Inr s'')
    with assms avg have "s'' = s'" and "response =
        \<lparr>BrokerApplicationPostResponseDto.success = True,
         loanAmount = (if avg \<noteq> Num (ApplicationDto.loanAmount body)
                       then Some (ApplicationDto.loanAmount body) else None),
         message = ''Loan amount is '' @
           (if jsGreater (Num (ApplicationDto.loanAmount body)) avg then ''above''
            else if jsLess (Num (ApplicationDto.loanAmount body)) avg then ''below''
            else ''at'')
           @ '' average''\<rparr>"
      by (simp_all add: post_def Let_def strictEquals_Num del: append.simps)
    with avg Inr show ?thesis by simp
  qed
qed

lemma post_memory:
  "post memoryRepository user body s =
     Inr (\<lparr>BrokerApplicationPostResponseDto.success = True,
           loanAmount = (if ApplicationDto.loanAmount body \<noteq> averageLoanAmount s
                         then Some (ApplicationDto.loanAmount body) else None),
           message = ''Loan amount is '' @
                     (if ApplicationDto.loanAmount body > averageLoanAmount s then ''above''
                      else if ApplicationDto.loanAmount body < averageLoanAmount s then ''below''
                      else ''at'') @ '' average''\<rparr>,
          insertApplication
            \<lparr>payload = body, status = Submitted, brokerId = BrokerDto.id' user\<rparr> s)"
  by (simp add: post_def memoryRepository_def Let_def jsGreater_Num jsLess_Num
        del: append.simps)

lemma getAverageLoanAmount_store1:
  "getAverageLoanAmount memoryRepository store1 = Inr (Num 100000)"
  by (simp add: memoryRepository_def averageLoanAmount_def store1_def)

lemma averageLoanAmount_store1: "averageLoanAmount store1 = 100000"
  by (simp add: averageLoanAmount_def store1_def)

lemma averageLoanAmount_emptyStore: "averageLoanAmount emptyStore = 0"
  by (simp add: averageLoanAmount_def emptyStore_def)

lemma findOptions_broker7_all:
  "findOptions broker7 (listQuery None None c None) [] =
     Inr (\<lparr>FindOptions.where' = [(''brokerId'', Equals (IdValue 7))],
           include' = relatedData broker7 (listQuery None None c None)\<rparr>, [])"
  by (simp add: findOptions_def createDateFilter_def whereOptions_def spread_def
        listQuery_def broker7_def)

lemma queryApplications_store1_pending:
  "map (\<lambda>row. (Application.id' (application row), map_option Task.id' (task row)))
     (queryApplications store1
        \<lparr>FindOptions.where' = [(''brokerId'', Equals (IdValue 7))],
         include' = relatedData broker7 (listQuery None None None None)\<rparr>)
   = [(1, None), (3, Some 3)]"
  by (simp add: queryApplications_def store1_def matchesApplication_def satisfies_def
        applicationAttributes_def relatedData_def listQuery_def broker7_def
        relatedTask_def matchesTask_def taskAttributes_def mandatory_def)

lemma queryApplications_store1_ids:
  "map (\<lambda>row. Application.id' (application row))
     (queryApplications store1
        \<lparr>FindOptions.where' = [(''brokerId'', Equals (IdValue 7))],
         include' = relatedData broker7 (listQuery None None None None)\<rparr>)
   = [1, 3]"
  by (simp add: queryApplications_def store1_def matchesApplication_def satisfies_def
        applicationAttributes_def relatedData_def listQuery_def broker7_def
        relatedTask_def matchesTask_def taskAttributes_def mandatory_def)

lemma queryApplications_store1_completed:
  "map (\<lambda>row. (Application.id' (application row), map_option Task.id' (task row)))
     (queryApplications store1
        \<lparr>FindOptions.where' = [(''brokerId'', Equals (IdValue 7))],
         include' = relatedData broker7 (listQuery None None (Some True) None)\<rparr>)
   = [(1, Some 1)]"
  by (simp add: queryApplications_def store1_def matchesApplication_def satisfies_def
        applicationAttributes_def relatedData_def listQuery_def broker7_def
        relatedTask_def matchesTask_def taskAttributes_def mandatory_def)

section \<open>Properties of \<^verbatim>\<open>find\<close>\<close>

text \<open>
  C3. When the minimum date lies after the maximum date, \<^verbatim>\<open>createDateFilter\<close> raises
  \<open>InvalidRange\<close>, no query object is built, and \<^verbatim>\<open>find\<close> throws an \<^verbatim>\<open>HttpException\<close> with
  status \<open>BAD_REQUEST\<close>, whatever the repository, the store and the other parameters are:
  it returns no result, and the bounds are neither swapped nor dropped.
\<close>

theorem inverted_range_is_bad_request:
  assumes "minimumDate query = Some lo" and "maximumDate query = Some hi" and "hi < lo"
  shows "createDateFilter ''createdAt'' (minimumDate query) (maximumDate query) = Inl InvalidRange
    \<and> findOptions user query console = Inl (HttpException InvalidRange BAD_REQUEST)
    \<and> find applicationEntity user query (s, console) =
        Inl (HttpException InvalidRange BAD_REQUEST)"
proof -
  have "createDateFilter ''createdAt'' (minimumDate query) (maximumDate query) = Inl InvalidRange"
    using assms by (simp add: createDateFilter_def)
  moreover have "findOptions user query console = Inl (HttpException InvalidRange BAD_REQUEST)"
    using assms by (rule findOptions_Inl)
  moreover from this
  have "find applicationEntity user query (s, console) =
          Inl (HttpException InvalidRange BAD_REQUEST)"
    by (simp add: find_def)
  ultimately show ?thesis by simp
qed

theorem inverted_range_is_bad_request_witness:
  "minimumDate (listQuery (Some 5) (Some 3) None None) = Some 5
   \<and> maximumDate (listQuery (Some 5) (Some 3) None None) = Some 3
   \<and> (3::int) < 5
   \<and> find memoryRepository broker7 (listQuery (Some 5) (Some 3) None None) (store1, []) =
       Inl (HttpException InvalidRange BAD_REQUEST)"
proof -
  have lo: "minimumDate (listQuery (Some 5) (Some 3) None None) = Some 5"
    and hi: "maximumDate (listQuery (Some 5) (Some 3) None None) = Some 3"
    and inv: "(3::int) < 5"
    by (simp_all add: listQuery_def)
  from inverted_range_is_bad_request
         [OF lo hi inv, where applicationEntity = memoryRepository and s = store1
            and user = broker7 and console = "[]"]
       lo hi inv
  show ?thesis by simp
qed

text \<open>
  C1. Whatever the query parameters are, the \<^verbatim>\<open>where\<close> object that \<^verbatim>\<open>find\<close> builds constrains
  \<^verbatim>\<open>brokerId\<close> to the actor's identifier, and the \<^verbatim>\<open>where\<close> object of the task join
  constrains \<^verbatim>\<open>assignedToBrokerId\<close> to it. So the query matches no application of a broker
  other than the actor and joins no task assigned to another broker, and the rows a store
  returns for it are the actor's.
\<close>

theorem actor_scoping:
  assumes "findOptions user query console = Inr (options, console')"
  shows "map_of (FindOptions.where' options) ''brokerId''
           = Some (Equals (IdValue (BrokerDto.id' user)))
    \<and> (\<forall>a. Application.brokerId a \<noteq> BrokerDto.id' user \<longrightarrow> \<not> matchesApplication options a)
    \<and> (\<forall>inc \<in> set (include' options).
          map_of (IncludeOptions.where' inc) ''assignedToBrokerId''
            = Some (Equals (IdValue (BrokerDto.id' user)))
          \<and> (\<forall>t. assignedToBrokerId t \<noteq> BrokerDto.id' user \<longrightarrow> \<not> matchesTask inc t))
    \<and> (\<forall>s. \<forall>row \<in> set (queryApplications s options).
          Application.brokerId (application row) = BrokerDto.id' user
          \<and> (\<forall>t. task row = Some t \<longrightarrow> assignedToBrokerId t = BrokerDto.id' user))"
proof -
  from findOptions_Inr[OF assms] obtain w where
    w: "FindOptions.where' options = (''brokerId'', Equals (IdValue (BrokerDto.id' user))) # w"
    and inc: "include' options = relatedData user query"
    by blast
  from w have key: "map_of (FindOptions.where' options) ''brokerId''
           = Some (Equals (IdValue (BrokerDto.id' user)))"
    by simp
  have apps: "\<forall>a. Application.brokerId a \<noteq> BrokerDto.id' user \<longrightarrow> \<not> matchesApplication options a"
    using matchesApplication_brokerId[OF w] by blast
  have tasks: "\<forall>inc \<in> set (include' options).
          map_of (IncludeOptions.where' inc) ''assignedToBrokerId''
            = Some (Equals (IdValue (BrokerDto.id' user)))
          \<and> (\<forall>t. assignedToBrokerId t \<noteq> BrokerDto.id' user \<longrightarrow> \<not> matchesTask inc t)"
  proof
    fix i assume i: "i \<in> set (include' options)"
    then have "map_of (IncludeOptions.where' i) ''assignedToBrokerId''
            = Some (Equals (IdValue (BrokerDto.id' user)))"
      by (auto simp: inc relatedData_def split: if_splits)
    moreover from i have "\<forall>t. assignedToBrokerId t \<noteq> BrokerDto.id' user \<longrightarrow> \<not> matchesTask i t"
      by (simp add: inc matchesTask_relatedData)
    ultimately show "map_of (IncludeOptions.where' i) ''assignedToBrokerId''
            = Some (Equals (IdValue (BrokerDto.id' user)))
          \<and> (\<forall>t. assignedToBrokerId t \<noteq> BrokerDto.id' user \<longrightarrow> \<not> matchesTask i t)"
      by blast
  qed
  have rows: "\<forall>s. \<forall>row \<in> set (queryApplications s options).
          Application.brokerId (application row) = BrokerDto.id' user
          \<and> (\<forall>t. task row = Some t \<longrightarrow> assignedToBrokerId t = BrokerDto.id' user)"
  proof (intro allI ballI conjI impI)
    fix s row
    assume row: "row \<in> set (queryApplications s options)"
    from inc relatedData_single obtain i where single: "include' options = [i]"
      by metis
    from queryApplications_row[OF row single]
    have m: "matchesApplication options (application row)"
      and t: "task row = relatedTask (taskTable s) i (application row)"
      by blast+
    from m apps show "Application.brokerId (application row) = BrokerDto.id' user" by blast
    fix t assume "task row = Some t"
    with t relatedTask_Some have "matchesTask i t" by metis
    with tasks single show "assignedToBrokerId t = BrokerDto.id' user" by auto
  qed
  from key apps tasks rows show ?thesis by blast
qed

theorem actor_scoping_witness:
  "\<exists>options.
     findOptions broker7 (listQuery None None None None) [] = Inr (options, [])
     \<and> map (\<lambda>row. (Application.id' (application row), map_option Task.id' (task row)))
           (queryApplications store1 options) = [(1, None), (3, Some 3)]
     \<and> list_all (\<lambda>row. Application.brokerId (application row) = 7)
           (queryApplications store1 options)
     \<and> \<not> matchesApplication options
           \<lparr>Application.id' = 2, Application.brokerId = 8, Application.status = Approved,
            Application.loanAmount = 100000, createdAt = 12\<rparr>"
proof -
  let ?options = "\<lparr>FindOptions.where' = [(''brokerId'', Equals (IdValue 7))],
                   include' = relatedData broker7 (listQuery None None None None)\<rparr>"
  have run: "findOptions broker7 (listQuery None None None None) [] = Inr (?options, [])"
    by (rule findOptions_broker7_all)
  note scoped = actor_scoping[OF run]
  from scoped have "\<forall>row \<in> set (queryApplications store1 ?options).
      Application.brokerId (application row) = 7"
    by (simp add: broker7_def)
  then have own: "list_all (\<lambda>row. Application.brokerId (application row) = 7)
           (queryApplications store1 ?options)"
    by (simp add: list_all_iff)
  from scoped have other: "\<not> matchesApplication ?options
           \<lparr>Application.id' = 2, Application.brokerId = 8, Application.status = Approved,
            Application.loanAmount = 100000, createdAt = 12\<rparr>"
    by (simp add: broker7_def)
  note rows = queryApplications_store1_pending
  show ?thesis
    by (rule exI[of _ ?options]) (intro conjI; fact)
qed

text \<open>
  C2. \<^verbatim>\<open>find\<close> joins exactly one related model, the task. With \<^verbatim>\<open>completed\<close> true the join
  asks for a task with status \<open>Completed\<close> that is assigned to the actor and it is
  mandatory: the applications returned are the matching ones that have such a task, each
  with such a task. With \<^verbatim>\<open>completed\<close> false or absent the join asks for a task with status
  \<open>Pending\<close> that is assigned to the actor and it is optional: every matching application is
  returned, with such a task when there is one and without a task when there is none.
\<close>

theorem task_join_by_completed_flag:
  assumes "findOptions user query console = Inr (options, console')"
  shows "\<exists>inc. include' options = [inc] \<and> model inc = TaskModel
    \<and> (completed query = Some True \<longrightarrow>
          IncludeOptions.where' inc =
            [(''status'', Equals (TaskStatusValue Completed)),
             (''assignedToBrokerId'', Equals (IdValue (BrokerDto.id' user)))]
        \<and> mandatory inc
        \<and> (\<forall>t. matchesTask inc t \<longleftrightarrow>
                 Task.status t = Completed \<and> assignedToBrokerId t = BrokerDto.id' user)
        \<and> (\<forall>s. map application (queryApplications s options) =
                 filter (\<lambda>a. matchesApplication options a
                          \<and> (\<exists>t \<in> set (taskTable s). applicationId t = Application.id' a
                                \<and> Task.status t = Completed
                                \<and> assignedToBrokerId t = BrokerDto.id' user))
                   (applicationTable s))
        \<and> (\<forall>s. \<forall>row \<in> set (queryApplications s options).
               \<exists>t \<in> set (taskTable s). task row = Some t
                 \<and> applicationId t = Application.id' (application row)
                 \<and> Task.status t = Completed
                 \<and> assignedToBrokerId t = BrokerDto.id' user))
    \<and> (completed query \<noteq> Some True \<longrightarrow>
          IncludeOptions.where' inc =
            [(''status'', Equals (TaskStatusValue Pending)),
             (''assignedToBrokerId'', Equals (IdValue (BrokerDto.id' user)))]
        \<and> \<not> mandatory inc
        \<and> (\<forall>t. matchesTask inc t \<longleftrightarrow>
                 Task.status t = Pending \<and> assignedToBrokerId t = BrokerDto.id' user)
        \<and> (\<forall>s. map application (queryApplications s options) =
                 filter (matchesApplication options) (applicationTable s))
        \<and> (\<forall>s. \<forall>row \<in> set (queryApplications s options).
               case task row of
                 None \<Rightarrow>
                   \<not> (\<exists>t \<in> set (taskTable s). applicationId t = Application.id' (application row)
                         \<and> Task.status t = Pending
                         \<and> assignedToBrokerId t = BrokerDto.id' user)
               | Some t \<Rightarrow>
                   t \<in> set (taskTable s)
                   \<and> applicationId t = Application.id' (application row)
                   \<and> Task.status t = Pending
                   \<and> assignedToBrokerId t = BrokerDto.id' user))"
proof -
  from findOptions_Inr[OF assms] have inc: "include' options = relatedData user query"
    by blast
  from relatedData_single obtain i where i: "relatedData user query = [i]" by blast
  with inc have single: "include' options = [i]" by simp
  from i have mem: "i \<in> set (relatedData user query)" by simp
  note mt = matchesTask_relatedData[OF mem]
  note md = mandatory_relatedData[OF mem]
  from i have model: "model i = TaskModel"
    by (auto simp: relatedData_def split: if_splits)
  have related: "relatedTask (taskTable s) i a \<noteq> None \<longleftrightarrow>
      (\<exists>t \<in> set (taskTable s). applicationId t = Application.id' a
         \<and> Task.status t = (if completed query = Some True then Completed else Pending)
         \<and> assignedToBrokerId t = BrokerDto.id' user)" for s a
    unfolding relatedTask_None mt by blast
  have completed: "IncludeOptions.where' i =
            [(''status'', Equals (TaskStatusValue Completed)),
             (''assignedToBrokerId'', Equals (IdValue (BrokerDto.id' user)))]
        \<and> mandatory i
        \<and> (\<forall>t. matchesTask i t \<longleftrightarrow>
                 Task.status t = Completed \<and> assignedToBrokerId t = BrokerDto.id' user)
        \<and> (\<forall>s. map application (queryApplications s options) =
                 filter (\<lambda>a. matchesApplication options a
                          \<and> (\<exists>t \<in> set (taskTable s). applicationId t = Application.id' a
                                \<and> Task.status t = Completed
                                \<and> assignedToBrokerId t = BrokerDto.id' user))
                   (applicationTable s))
        \<and> (\<forall>s. \<forall>row \<in> set (queryApplications s options).
               \<exists>t \<in> set (taskTable s). task row = Some t
                 \<and> applicationId t = Application.id' (application row)
                 \<and> Task.status t = Completed
                 \<and> assignedToBrokerId t = BrokerDto.id' user)"
    if c: "completed query = Some True"
  proof (intro conjI allI ballI)
    from i c show "IncludeOptions.where' i =
            [(''status'', Equals (TaskStatusValue Completed)),
             (''assignedToBrokerId'', Equals (IdValue (BrokerDto.id' user)))]"
      by (auto simp: relatedData_def)
    from md c show "mandatory i" by simp
    fix t show "matchesTask i t \<longleftrightarrow>
                 Task.status t = Completed \<and> assignedToBrokerId t = BrokerDto.id' user"
      using mt c by simp
  next
    fix s
    from md c have "mandatory i" by simp
    then show "map application (queryApplications s options) =
                 filter (\<lambda>a. matchesApplication options a
                          \<and> (\<exists>t \<in> set (taskTable s). applicationId t = Application.id' a
                                \<and> Task.status t = Completed
                                \<and> assignedToBrokerId t = BrokerDto.id' user))
                   (applicationTable s)"
      unfolding map_application_queryApplications[OF single] related using c by simp
  next
    fix s row assume row: "row \<in> set (queryApplications s options)"
    from md c have "mandatory i" by simp
    with queryApplications_row[OF row single] obtain t where
      t: "task row = Some t" "relatedTask (taskTable s) i (application row) = Some t"
      by auto
    from relatedTask_Some[OF t(2)] mt c t(1)
    show "\<exists>t \<in> set (taskTable s). task row = Some t
                 \<and> applicationId t = Application.id' (application row)
                 \<and> Task.status t = Completed
                 \<and> assignedToBrokerId t = BrokerDto.id' user"
      by auto
  qed
  have pending: "IncludeOptions.where' i =
            [(''status'', Equals (TaskStatusValue Pending)),
             (''assignedToBrokerId'', Equals (IdValue (BrokerDto.id' user)))]
        \<and> \<not> mandatory i
        \<and> (\<forall>t. matchesTask i t \<longleftrightarrow>
                 Task.status t = Pending \<and> assignedToBrokerId t = BrokerDto.id' user)
        \<and> (\<forall>s. map application (queryApplications s options) =
                 filter (matchesApplication options) (applicationTable s))
        \<and> (\<forall>s. \<forall>row \<in> set (queryApplications s options).
               case task row of
                 None \<Rightarrow>
                   \<not> (\<exists>t \<in> set (taskTable s). applicationId t = Application.id' (application row)
                         \<and> Task.status t = Pending
                         \<and> assignedToBrokerId t = BrokerDto.id' user)
               | Some t \<Rightarrow>
                   t \<in> set (taskTable s)
                   \<and> applicationId t = Application.id' (application row)
                   \<and> Task.status t = Pending
                   \<and> assignedToBrokerId t = BrokerDto.id' user)"
    if c: "completed query \<noteq> Some True"
  proof (intro conjI allI ballI)
    from i c show "IncludeOptions.where' i =
            [(''status'', Equals (TaskStatusValue Pending)),
             (''assignedToBrokerId'', Equals (IdValue (BrokerDto.id' user)))]"
      by (auto simp: relatedData_def)
    from md c show "\<not> mandatory i" by simp
    fix t show "matchesTask i t \<longleftrightarrow>
                 Task.status t = Pending \<and> assignedToBrokerId t = BrokerDto.id' user"
      using mt c by simp
  next
    fix s
    from md c have "\<not> mandatory i" by simp
    then show "map application (queryApplications s options) =
                 filter (matchesApplication options) (applicationTable s)"
      unfolding map_application_queryApplications[OF single] by simp
  next
    fix s row assume row: "row \<in> set (queryApplications s options)"
    from queryApplications_row[OF row single]
    have t: "task row = relatedTask (taskTable s) i (application row)" by blast
    show "case task row of
                 None \<Rightarrow>
                   \<not> (\<exists>t \<in> set (taskTable s). applicationId t = Application.id' (application row)
                         \<and> Task.status t = Pending
                         \<and> assignedToBrokerId t = BrokerDto.id' user)
               | Some t \<Rightarrow>
                   t \<in> set (taskTable s)
                   \<and> applicationId t = Application.id' (application row)
                   \<and> Task.status t = Pending
                   \<and> assignedToBrokerId t = BrokerDto.id' user"
    proof (cases "task row")
      case None
      with t have "relatedTask (taskTable s) i (application row) = None" by simp
      then have "\<not> (\<exists>t \<in> set (taskTable s). applicationId t = Application.id' (application row)
                         \<and> Task.status t = Pending
                         \<and> assignedToBrokerId t = BrokerDto.id' user)"
        unfolding relatedTask_None mt using c by simp
      with None show ?thesis by simp
    next
      case (Some u)
      with t have "relatedTask (taskTable s) i (application row) = Some u" by simp
      from relatedTask_Some[OF this] mt c Some show ?thesis by simp
    qed
  qed
  from single model completed pending show ?thesis by blast
qed

theorem task_join_by_completed_flag_witness:
  "(\<exists>options inc.
      findOptions broker7 (listQuery None None (Some True) None) [] = Inr (options, [])
      \<and> include' options = [inc] \<and> mandatory inc
      \<and> map (\<lambda>row. (Application.id' (application row), map_option Task.id' (task row)))
            (queryApplications store1 options) = [(1, Some 1)])
   \<and> (\<exists>options inc.
      findOptions broker7 (listQuery None None None None) [] = Inr (options, [])
      \<and> include' options = [inc] \<and> \<not> mandatory inc
      \<and> map (\<lambda>row. (Application.id' (application row), map_option Task.id' (task row)))
            (queryApplications store1 options) = [(1, None), (3, Some 3)])"
proof -
  let ?c = "\<lparr>FindOptions.where' = [(''brokerId'', Equals (IdValue 7))],
             include' = relatedData broker7 (listQuery None None (Some True) None)\<rparr>"
  let ?p = "\<lparr>FindOptions.where' = [(''brokerId'', Equals (IdValue 7))],
             include' = relatedData broker7 (listQuery None None None None)\<rparr>"
  have runc: "findOptions broker7 (listQuery None None (Some True) None) [] = Inr (?c, [])"
    by (rule findOptions_broker7_all)
  have runp: "findOptions broker7 (listQuery None None None None) [] = Inr (?p, [])"
    by (rule findOptions_broker7_all)
  note rowsc = queryApplications_store1_completed
  note rowsp = queryApplications_store1_pending
  from task_join_by_completed_flag[OF runc] obtain inc where
    inc: "include' ?c = [inc]" "mandatory inc"
    by (auto simp: listQuery_def)
  have first:
    "\<exists>options inc.
      findOptions broker7 (listQuery None None (Some True) None) [] = Inr (options, [])
      \<and> include' options = [inc] \<and> mandatory inc
      \<and> map (\<lambda>row. (Application.id' (application row), map_option Task.id' (task row)))
            (queryApplications store1 options) = [(1, Some 1)]"
    by (rule exI[of _ ?c], rule exI[of _ inc]) (intro conjI; fact)
  from task_join_by_completed_flag[OF runp] obtain inc' where
    inc': "include' ?p = [inc']" "\<not> mandatory inc'"
    by (auto simp: listQuery_def)
  have second:
    "\<exists>options inc.
      findOptions broker7 (listQuery None None None None) [] = Inr (options, [])
      \<and> include' options = [inc] \<and> \<not> mandatory inc
      \<and> map (\<lambda>row. (Application.id' (application row), map_option Task.id' (task row)))
            (queryApplications store1 options) = [(1, None), (3, Some 3)]"
    by (rule exI[of _ ?p], rule exI[of _ inc']) (intro conjI; fact)
  from first second show ?thesis by (rule conjI)
qed

text \<open>
  C7. When the query carries a non-empty list of statuses, the \<^verbatim>\<open>where\<close> object has, besides
  what it has without the list, the constraint that the application's status is one of the
  list. When the query carries no status parameter, the \<^verbatim>\<open>where\<close> object has no entry for
  the status and the status of an application does not decide whether it matches.
\<close>

theorem status_filter:
  assumes "findOptions user query console = Inr (options, console')"
  shows "(\<forall>statuses. BrokerApplicationsListRequestDto.status query = Some statuses
             \<and> statuses \<noteq> [] \<longrightarrow>
            map_of (FindOptions.where' options) ''status''
              = Some (OpIn (map ApplicationStatusValue statuses))
          \<and> (\<exists>options0.
                findOptions user (query\<lparr>BrokerApplicationsListRequestDto.status := None\<rparr>) console
                  = Inr (options0, console)
              \<and> (\<forall>a. matchesApplication options a \<longleftrightarrow>
                       matchesApplication options0 a \<and> Application.status a \<in> set statuses)))
    \<and> (BrokerApplicationsListRequestDto.status query = None \<longrightarrow>
          map_of (FindOptions.where' options) ''status'' = None
        \<and> (\<forall>a st. matchesApplication options (a\<lparr>Application.status := st\<rparr>)
                     \<longleftrightarrow> matchesApplication options a))"
proof -
  let ?b = "(''brokerId'', Equals (IdValue (BrokerDto.id' user)))"
  from findOptions_Inr[OF assms] obtain df where
    df: "createDateFilter ''createdAt'' (minimumDate query) (maximumDate query) = Inr df"
    and w: "FindOptions.where' options = ?b # df @
         (case BrokerApplicationsListRequestDto.status query of
            None \<Rightarrow> []
          | Some statuses \<Rightarrow> [(''status'', OpIn (map ApplicationStatusValue statuses))])"
    by blast
  from createDateFilter_cases[OF df] have nokey: "map_of df ''status'' = None"
    by auto
  have given: "map_of (FindOptions.where' options) ''status''
              = Some (OpIn (map ApplicationStatusValue statuses))
          \<and> (\<exists>options0.
                findOptions user (query\<lparr>BrokerApplicationsListRequestDto.status := None\<rparr>) console
                  = Inr (options0, console)
              \<and> (\<forall>a. matchesApplication options a \<longleftrightarrow>
                       matchesApplication options0 a \<and> Application.status a \<in> set statuses))"
    if st: "BrokerApplicationsListRequestDto.status query = Some statuses" for statuses
  proof -
    let ?plain = "query\<lparr>BrokerApplicationsListRequestDto.status := None\<rparr>"
    let ?bare = "\<lparr>FindOptions.where' = ?b # df, include' = relatedData user ?plain\<rparr>"
    from w st have w': "FindOptions.where' options =
        (?b # df) @ [(''status'', OpIn (map ApplicationStatusValue statuses))]"
      by simp
    from w' nokey have "map_of (FindOptions.where' options) ''status''
              = Some (OpIn (map ApplicationStatusValue statuses))"
      by (simp add: map_add_def)
    moreover from df have "findOptions user ?plain console = Inr (?bare, console)"
      by (intro findOptions_no_status) simp_all
    moreover have "matchesApplication options a \<longleftrightarrow>
        matchesApplication ?bare a \<and> Application.status a \<in> set statuses" for a
      unfolding matchesApplication_def w' satisfies_append satisfies_status by simp
    ultimately show ?thesis by blast
  qed
  have omitted: "map_of (FindOptions.where' options) ''status'' = None
        \<and> (\<forall>a st. matchesApplication options (a\<lparr>Application.status := st\<rparr>)
                     \<longleftrightarrow> matchesApplication options a)"
    if st: "BrokerApplicationsListRequestDto.status query = None"
  proof -
    from w st have w': "FindOptions.where' options = [?b] @ df" by simp
    from w' nokey have "map_of (FindOptions.where' options) ''status'' = None"
      by simp
    moreover have "matchesApplication options (a\<lparr>Application.status := st\<rparr>)
                     \<longleftrightarrow> matchesApplication options a" for a st
      unfolding matchesApplication_def w' satisfies_append satisfies_brokerId
        satisfies_dateFilter_status[OF df]
      by simp
    ultimately show ?thesis by blast
  qed
  from given omitted show ?thesis by blast
qed

theorem status_filter_witness:
  "\<exists>options options0.
     findOptions broker7 (listQuery None None None (Some [Approved])) []
       = Inr (options, [FindOptions.where' options])
     \<and> map_of (FindOptions.where' options) ''status''
          = Some (OpIn [ApplicationStatusValue Approved])
     \<and> findOptions broker7 (listQuery None None None None) [] = Inr (options0, [])
     \<and> map_of (FindOptions.where' options0) ''status'' = None
     \<and> map (\<lambda>row. Application.id' (application row)) (queryApplications store1 options) = [3]
     \<and> map (\<lambda>row. Application.id' (application row)) (queryApplications store1 options0)
          = [1, 3]"
proof -
  let ?given = "\<lparr>FindOptions.where' =
               [(''brokerId'', Equals (IdValue 7)),
                (''status'', OpIn [ApplicationStatusValue Approved])],
             include' = relatedData broker7 (listQuery None None None (Some [Approved]))\<rparr>"
  let ?omitted = "\<lparr>FindOptions.where' = [(''brokerId'', Equals (IdValue 7))],
              include' = relatedData broker7 (listQuery None None None None)\<rparr>"
  have run: "findOptions broker7 (listQuery None None None (Some [Approved])) []
       = Inr (?given, [FindOptions.where' ?given])"
    by (simp add: findOptions_def createDateFilter_def whereOptions_def spread_def
          listQuery_def broker7_def Let_def)
  have run0: "findOptions broker7 (listQuery None None None None) [] = Inr (?omitted, [])"
    by (rule findOptions_broker7_all)
  from status_filter[OF run]
  have key: "map_of (FindOptions.where' ?given) ''status''
          = Some (OpIn [ApplicationStatusValue Approved])"
    by (simp add: listQuery_def)
  from status_filter[OF run0]
  have key0: "map_of (FindOptions.where' ?omitted) ''status'' = None"
    by (simp add: listQuery_def)
  have rows: "map (\<lambda>row. Application.id' (application row)) (queryApplications store1 ?given) = [3]"
    by (simp add: queryApplications_def store1_def matchesApplication_def satisfies_def
          applicationAttributes_def relatedData_def listQuery_def broker7_def
          relatedTask_def matchesTask_def taskAttributes_def mandatory_def)
  have rows0:
    "map (\<lambda>row. Application.id' (application row)) (queryApplications store1 ?omitted) = [1, 3]"
    by (rule queryApplications_store1_ids)
  show ?thesis
    by (rule exI[of _ ?given], rule exI[of _ ?omitted]) (intro conjI; fact)
qed

text \<open>
  C9. A status list that is present but empty is not the same as no status parameter: the
  \<^verbatim>\<open>where\<close> object then requires the status to be one of no statuses, so no application
  matches and the list of applications that \<^verbatim>\<open>find\<close> returns is empty, whereas the same
  query without the parameter has no status entry and matches some application.
\<close>

theorem empty_status_list_matches_nothing:
  assumes "BrokerApplicationsListRequestDto.status query = Some []"
    and "findOptions user query console = Inr (options, console')"
  shows "map_of (FindOptions.where' options) ''status'' = Some (OpIn [])
    \<and> (\<forall>a. \<not> matchesApplication options a)
    \<and> (\<forall>s. find memoryRepository user query (s, console) =
              Inr (\<lparr>BrokerApplicationsListResponseDto.success = True, applications = []\<rparr>,
                   console'))
    \<and> (\<exists>options0.
          findOptions user (query\<lparr>BrokerApplicationsListRequestDto.status := None\<rparr>) console
            = Inr (options0, console)
        \<and> map_of (FindOptions.where' options0) ''status'' = None
        \<and> (\<exists>a. matchesApplication options0 a))"
proof -
  let ?b = "(''brokerId'', Equals (IdValue (BrokerDto.id' user)))"
  let ?plain = "query\<lparr>BrokerApplicationsListRequestDto.status := None\<rparr>"
  from findOptions_Inr[OF assms(2)] assms(1) obtain df where
    df: "createDateFilter ''createdAt'' (minimumDate query) (maximumDate query) = Inr df"
    and w: "FindOptions.where' options = (?b # df) @ [(''status'', OpIn [])]"
    by auto
  let ?bare = "\<lparr>FindOptions.where' = ?b # df, include' = relatedData user ?plain\<rparr>"
  from createDateFilter_cases[OF df] have nokey: "map_of df ''status'' = None"
    by auto
  from w nokey have key: "map_of (FindOptions.where' options) ''status'' = Some (OpIn [])"
    by (simp add: map_add_def)
  have none: "\<forall>a. \<not> matchesApplication options a"
    unfolding matchesApplication_def w satisfies_append
    by (simp add: satisfies_def applicationAttributes_def)
  then have "queryApplications s options = []" for s
    by (rule queryApplications_unsatisfiable)
  with assms(2) have rows: "\<forall>s. find memoryRepository user query (s, console) =
              Inr (\<lparr>BrokerApplicationsListResponseDto.success = True, applications = []\<rparr>,
                   console')"
    by (simp add: find_memory)
  from df have run0: "findOptions user ?plain console = Inr (?bare, console)"
    by (intro findOptions_no_status) simp_all
  from nokey have key0: "map_of (FindOptions.where' ?bare) ''status'' = None"
    by simp
  from satisfies_dateFilter_ex[OF df] obtain d where
    "satisfies (applicationAttributes
           \<lparr>Application.id' = 0, Application.brokerId = BrokerDto.id' user,
            Application.status = Submitted, Application.loanAmount = 0, createdAt = d\<rparr>) df"
    by blast
  then have "matchesApplication ?bare
           \<lparr>Application.id' = 0, Application.brokerId = BrokerDto.id' user,
            Application.status = Submitted, Application.loanAmount = 0, createdAt = d\<rparr>"
    unfolding matchesApplication_def
    by (simp add: satisfies_Cons) (simp add: applicationAttributes_def)
  then have some: "\<exists>a. matchesApplication ?bare a" ..
  from key none rows run0 key0 some show ?thesis by blast
qed

theorem empty_status_list_matches_nothing_witness:
  "\<exists>options console'.
     BrokerApplicationsListRequestDto.status (listQuery None None None (Some [])) = Some []
     \<and> findOptions broker7 (listQuery None None None (Some [])) [] = Inr (options, console')
     \<and> find memoryRepository broker7 (listQuery None None None (Some [])) (store1, []) =
         Inr (\<lparr>BrokerApplicationsListResponseDto.success = True, applications = []\<rparr>, console')
     \<and> (\<exists>response.
           find memoryRepository broker7 (listQuery None None None None) (store1, []) =
             Inr (response, [])
         \<and> map (\<lambda>row. Application.id' (application row)) (applications response) = [1, 3])"
proof -
  let ?given = "\<lparr>FindOptions.where' =
               [(''brokerId'', Equals (IdValue 7)), (''status'', OpIn [])],
             include' = relatedData broker7 (listQuery None None None (Some []))\<rparr>"
  let ?omitted = "\<lparr>FindOptions.where' = [(''brokerId'', Equals (IdValue 7))],
              include' = relatedData broker7 (listQuery None None None None)\<rparr>"
  have st: "BrokerApplicationsListRequestDto.status (listQuery None None None (Some [])) = Some []"
    by (simp add: listQuery_def)
  have run: "findOptions broker7 (listQuery None None None (Some [])) []
       = Inr (?given, [FindOptions.where' ?given])"
    by (simp add: findOptions_def createDateFilter_def whereOptions_def spread_def
          listQuery_def broker7_def Let_def)
  from empty_status_list_matches_nothing[OF st run]
  have empty: "find memoryRepository broker7 (listQuery None None None (Some [])) (store1, []) =
         Inr (\<lparr>BrokerApplicationsListResponseDto.success = True, applications = []\<rparr>,
              [FindOptions.where' ?given])"
    by blast
  have run0: "findOptions broker7 (listQuery None None None None) [] = Inr (?omitted, [])"
    by (rule findOptions_broker7_all)
  have rows0:
    "map (\<lambda>row. Application.id' (application row)) (queryApplications store1 ?omitted) = [1, 3]"
    by (rule queryApplications_store1_ids)
  have "find memoryRepository broker7 (listQuery None None None None) (store1, []) =
      Inr (\<lparr>BrokerApplicationsListResponseDto.success = True,
            applications = queryApplications store1 ?omitted\<rparr>, [])"
    by (simp add: find_memory run0)
  with rows0 have omitted: "\<exists>response.
           find memoryRepository broker7 (listQuery None None None None) (store1, []) =
             Inr (response, [])
         \<and> map (\<lambda>row. Application.id' (application row)) (applications response) = [1, 3]"
    by simp
  show ?thesis
    by (rule exI[of _ ?given], rule exI[of _ "[FindOptions.where' ?given]"])
      (intro conjI; fact)
qed

section \<open>Properties of \<^verbatim>\<open>post\<close>\<close>

text \<open>
  C4. In every submission that succeeds, the \<^verbatim>\<open>loanAmount\<close> of the response is the
  submitted amount when that amount differs from the average read before the application is
  stored, and it is \<^verbatim>\<open>null\<close> when the amount equals that average. An average that is not a
  number, or is \<^verbatim>\<open>NaN\<close>, differs from every amount.
\<close>

theorem echo_unless_at_average:
  assumes "post applicationEntity user body s = Inr (response, s')"
  shows "\<exists>avg. getAverageLoanAmount applicationEntity s = Inr avg
    \<and> (avg \<noteq> Num (ApplicationDto.loanAmount body) \<longrightarrow>
         BrokerApplicationPostResponseDto.loanAmount response =
           Some (ApplicationDto.loanAmount body))
    \<and> (avg = Num (ApplicationDto.loanAmount body) \<longrightarrow>
         BrokerApplicationPostResponseDto.loanAmount response = None)"
proof -
  from post_Inr[OF assms] obtain avg where
    avg: "getAverageLoanAmount applicationEntity s = Inr avg" and
    echo: "BrokerApplicationPostResponseDto.loanAmount response =
      (if avg \<noteq> Num (ApplicationDto.loanAmount body)
       then Some (ApplicationDto.loanAmount body) else None)"
    by blast
  from echo have "(avg \<noteq> Num (ApplicationDto.loanAmount body) \<longrightarrow>
         BrokerApplicationPostResponseDto.loanAmount response =
           Some (ApplicationDto.loanAmount body))
    \<and> (avg = Num (ApplicationDto.loanAmount body) \<longrightarrow>
         BrokerApplicationPostResponseDto.loanAmount response = None)" by simp
  with avg show ?thesis by blast
qed

theorem echo_unless_at_average_witness:
  "\<exists>response s'.
     post memoryRepository broker7 \<lparr>ApplicationDto.loanAmount = 100000\<rparr> store1
       = Inr (response, s')
     \<and> getAverageLoanAmount memoryRepository store1 = Inr (Num 100000)
     \<and> BrokerApplicationPostResponseDto.loanAmount response = None"
proof -
  obtain response s' where run:
    "post memoryRepository broker7 \<lparr>ApplicationDto.loanAmount = 100000\<rparr> store1
       = Inr (response, s')"
    by (simp add: post_memory)
  note avg = getAverageLoanAmount_store1
  from echo_unless_at_average[OF run] avg
  have "BrokerApplicationPostResponseDto.loanAmount response = None" by simp
  with run avg show ?thesis by blast
qed

text \<open>
  C5. In every submission that succeeds, the message is \<^verbatim>\<open>Loan amount is above average\<close>
  when the submitted amount is greater than the average read before the application is
  stored, \<^verbatim>\<open>Loan amount is below average\<close> when it is less, and
  \<^verbatim>\<open>Loan amount is at average\<close> when the two are equal. Greater and less are the
  comparisons \<^verbatim>\<open>>\<close> and \<^verbatim>\<open><\<close> of the language; on an average that is a number they are
  the order of the numbers.
\<close>

theorem message_classifies_amount:
  assumes "post applicationEntity user body s = Inr (response, s')"
  shows "\<exists>avg. getAverageLoanAmount applicationEntity s = Inr avg
    \<and> (jsGreater (Num (ApplicationDto.loanAmount body)) avg \<longrightarrow>
         message response = ''Loan amount is above average'')
    \<and> (jsLess (Num (ApplicationDto.loanAmount body)) avg \<longrightarrow>
         message response = ''Loan amount is below average'')
    \<and> (avg = Num (ApplicationDto.loanAmount body) \<longrightarrow>
         message response = ''Loan amount is at average'')
    \<and> (\<forall>a. avg = Num a \<longrightarrow>
           (ApplicationDto.loanAmount body > a \<longrightarrow>
              message response = ''Loan amount is above average'')
         \<and> (ApplicationDto.loanAmount body < a \<longrightarrow>
              message response = ''Loan amount is below average'')
         \<and> (ApplicationDto.loanAmount body = a \<longrightarrow>
              message response = ''Loan amount is at average''))"
proof -
  let ?x = "ApplicationDto.loanAmount body"
  from post_Inr[OF assms] obtain avg where
    avg: "getAverageLoanAmount applicationEntity s = Inr avg" and
    msg: "message response = ''Loan amount is '' @
            (if jsGreater (Num ?x) avg then ''above''
             else if jsLess (Num ?x) avg then ''below'' else ''at'')
            @ '' average''"
    by blast
  from msg have above:
    "jsGreater (Num ?x) avg \<longrightarrow> message response = ''Loan amount is above average''"
    by simp
  have excl: "jsLess (Num ?x) avg \<longrightarrow> \<not> jsGreater (Num ?x) avg"
    by (cases avg) (auto simp: jsGreater_def jsLess_def)
  with msg have below:
    "jsLess (Num ?x) avg \<longrightarrow> message response = ''Loan amount is below average''"
    by simp
  from msg have at: "avg = Num ?x \<longrightarrow> message response = ''Loan amount is at average''"
    by (simp add: jsGreater_Num jsLess_Num)
  from above below at have numbers: "\<forall>a. avg = Num a \<longrightarrow>
           (?x > a \<longrightarrow> message response = ''Loan amount is above average'')
         \<and> (?x < a \<longrightarrow> message response = ''Loan amount is below average'')
         \<and> (?x = a \<longrightarrow> message response = ''Loan amount is at average'')"
    by (simp add: jsGreater_Num jsLess_Num)
  from avg above below at numbers show ?thesis by blast
qed

theorem message_classifies_amount_witness:
  "post memoryRepository broker7 \<lparr>ApplicationDto.loanAmount = 120000\<rparr> store1 =
     Inr (\<lparr>BrokerApplicationPostResponseDto.success = True, loanAmount = Some 120000,
           message = ''Loan amount is above average''\<rparr>,
          insertApplication
            \<lparr>payload = \<lparr>ApplicationDto.loanAmount = 120000\<rparr>, status = Submitted,
             brokerId = 7\<rparr> store1)
   \<and> getAverageLoanAmount memoryRepository store1 = Inr (Num 100000)"
proof -
  obtain response s' where run:
    "post memoryRepository broker7 \<lparr>ApplicationDto.loanAmount = 120000\<rparr> store1
       = Inr (response, s')"
    by (simp add: post_memory)
  note avg = getAverageLoanAmount_store1
  from message_classifies_amount[OF run] avg
  have "message response = ''Loan amount is above average''"
    by (simp add: jsGreater_Num)
  moreover from run
  have "BrokerApplicationPostResponseDto.success response = True"
    and "BrokerApplicationPostResponseDto.loanAmount response = Some 120000"
    and "s' = insertApplication
            \<lparr>payload = \<lparr>ApplicationDto.loanAmount = 120000\<rparr>, status = Submitted,
             brokerId = 7\<rparr> store1"
    by (auto simp: post_memory averageLoanAmount_store1 broker7_def)
  ultimately have "response = \<lparr>BrokerApplicationPostResponseDto.success = True,
      loanAmount = Some 120000, message = ''Loan amount is above average''\<rparr>"
    by (cases response) simp
  with run avg \<open>s' = _\<close> show ?thesis by simp
qed




text \<open>
  C6. \<^verbatim>\<open>post\<close> stores the new application, with status \<open>Submitted\<close>, the acting broker's
  identifier and the payload, before it classifies the amount: when the repository rejects
  the \<^verbatim>\<open>create\<close> call the request ends with that rejection and no response, and a response
  comes with the state that \<^verbatim>\<open>create\<close> returned. The classification uses the average read
  in the state before the \<^verbatim>\<open>create\<close> call. On the repository in memory, the new row is the
  last of the table and the average is the one of the table without it.
\<close>

theorem stored_before_classified_against_prior_average:
  "(\<forall>avg e. getAverageLoanAmount applicationEntity s = Inr avg \<longrightarrow>
      create applicationEntity
        \<lparr>payload = body, status = Submitted, brokerId = BrokerDto.id' user\<rparr> s = Inl e \<longrightarrow>
      post applicationEntity user body s = Inl (Rejection e))
   \<and> (\<forall>response s'. post applicationEntity user body s = Inr (response, s') \<longrightarrow>
        create applicationEntity
          \<lparr>payload = body, status = Submitted, brokerId = BrokerDto.id' user\<rparr> s = Inr s'
        \<and> (\<exists>avg. getAverageLoanAmount applicationEntity s = Inr avg
             \<and> message response = ''Loan amount is '' @
                  (if jsGreater (Num (ApplicationDto.loanAmount body)) avg then ''above''
                   else if jsLess (Num (ApplicationDto.loanAmount body)) avg then ''below''
                   else ''at'')
                  @ '' average''))
   \<and> (\<forall>response m m'. post memoryRepository user body m = Inr (response, m') \<longrightarrow>
        applicationTable m' = applicationTable m @
          [\<lparr>Application.id' = Suc (length (applicationTable m)),
            Application.brokerId = BrokerDto.id' user,
            Application.status = Submitted,
            Application.loanAmount = ApplicationDto.loanAmount body,
            createdAt = now m\<rparr>]
        \<and> message response = ''Loan amount is '' @
             (if ApplicationDto.loanAmount body > averageLoanAmount m then ''above''
              else if ApplicationDto.loanAmount body < averageLoanAmount m then ''below''
              else ''at'')
             @ '' average'')"
proof (intro conjI allI impI)
  fix avg e
  assume "getAverageLoanAmount applicationEntity s = Inr avg"
    and "create applicationEntity
           \<lparr>payload = body, status = Submitted, brokerId = BrokerDto.id' user\<rparr> s = Inl e"
  then show "post applicationEntity user body s = Inl (Rejection e)"
    by (simp add: post_def Let_def)
next
  fix response s'
  assume run: "post applicationEntity user body s = Inr (response, s')"
  from post_Inr[OF run]
  show "create applicationEntity
          \<lparr>payload = body, status = Submitted, brokerId = BrokerDto.id' user\<rparr> s = Inr s'"
    by blast
  from post_Inr[OF run]
  show "\<exists>avg. getAverageLoanAmount applicationEntity s = Inr avg
             \<and> message response = ''Loan amount is '' @
                  (if jsGreater (Num (ApplicationDto.loanAmount body)) avg then ''above''
                   else if jsLess (Num (ApplicationDto.loanAmount body)) avg then ''below''
                   else ''at'')
                  @ '' average''"
    by blast
next
  fix response m m'
  assume run: "post memoryRepository user body m = Inr (response, m')"
  then have m': "m' = insertApplication
      \<lparr>payload = body, status = Submitted, brokerId = BrokerDto.id' user\<rparr> m"
    by (simp add: post_memory del: append.simps)
  then show "applicationTable m' = applicationTable m @
          [\<lparr>Application.id' = Suc (length (applicationTable m)),
            Application.brokerId = BrokerDto.id' user,
            Application.status = Submitted,
            Application.loanAmount = ApplicationDto.loanAmount body,
            createdAt = now m\<rparr>]"
    by (simp add: insertApplication_def)
  from run show "message response = ''Loan amount is '' @
             (if ApplicationDto.loanAmount body > averageLoanAmount m then ''above''
              else if ApplicationDto.loanAmount body < averageLoanAmount m then ''below''
              else ''at'')
             @ '' average''"
    by (auto simp add: post_memory simp del: append.simps)
qed

theorem stored_before_classified_against_prior_average_witness:
  "(\<exists>response m'.
      post memoryRepository broker7 \<lparr>ApplicationDto.loanAmount = 50\<rparr> emptyStore
        = Inr (response, m')
      \<and> applicationTable m' =
          [\<lparr>Application.id' = 1, Application.brokerId = 7, Application.status = Submitted,
            Application.loanAmount = 50, createdAt = 0\<rparr>]
      \<and> message response = ''Loan amount is above average''
      \<and> averageLoanAmount emptyStore = 0
      \<and> averageLoanAmount m' = 50)
   \<and> post readOnlyRepository broker7 \<lparr>ApplicationDto.loanAmount = 50\<rparr> emptyStore
        = Inl (Rejection InternalFailure)"
proof -
  note main = stored_before_classified_against_prior_average
  obtain response m' where run:
    "post memoryRepository broker7 \<lparr>ApplicationDto.loanAmount = 50\<rparr> emptyStore
       = Inr (response, m')"
    by (simp add: post_memory)
  from main[of memoryRepository emptyStore "\<lparr>ApplicationDto.loanAmount = 50\<rparr>" broker7] run
  have table: "applicationTable m' =
          [\<lparr>Application.id' = 1, Application.brokerId = 7, Application.status = Submitted,
            Application.loanAmount = 50, createdAt = 0\<rparr>]"
    and msg: "message response = ''Loan amount is above average''"
    by (simp_all add: emptyStore_def broker7_def averageLoanAmount_def)
  from table have after: "averageLoanAmount m' = 50"
    by (simp add: averageLoanAmount_def)
  have "getAverageLoanAmount readOnlyRepository emptyStore = Inr (Num 0)"
    and "create readOnlyRepository
           \<lparr>payload = \<lparr>ApplicationDto.loanAmount = 50\<rparr>, status = Submitted,
            brokerId = BrokerDto.id' broker7\<rparr> emptyStore = Inl InternalFailure"
    by (simp_all add: readOnlyRepository_def memoryRepository_def averageLoanAmount_emptyStore)
  with main[of readOnlyRepository emptyStore "\<lparr>ApplicationDto.loanAmount = 50\<rparr>" broker7]
  have "post readOnlyRepository broker7 \<lparr>ApplicationDto.loanAmount = 50\<rparr> emptyStore
        = Inl (Rejection InternalFailure)"
    by blast
  with run table msg after averageLoanAmount_emptyStore show ?thesis by blast
qed

end
